theory Spec2Isabelle
  imports Main "HOL-Library.AList"
begin

section \<open>JavaScript values\<close>

text \<open>
  The values that flow through \<^verbatim>\<open>src/fetcher.js\<close>.  Numbers are modelled as integers
  (timestamps, status codes, byte lengths and depths are integers; NaN and fractions
  are left out).  An object is the list of its own
  enumerable properties in insertion order.  A function is a reference into the
  environment, which supplies its behaviour.
\<close>

datatype jsval =
    Undefined
  | Null
  | Boolean bool
  | Number int
  | String string
  | Object "(string \<times> jsval) list"
  | Function nat

text \<open>ToBoolean: what \<^verbatim>\<open>||\<close>, \<^verbatim>\<open>if\<close> and \<^verbatim>\<open>Boolean(...)\<close> test.\<close>

fun truthy :: "jsval \<Rightarrow> bool" where
  "truthy Undefined = False"
| "truthy Null = False"
| "truthy (Boolean b) = b"
| "truthy (Number n) = (n \<noteq> 0)"
| "truthy (String s) = (s \<noteq> [])"
| "truthy (Object ps) = True"
| "truthy (Function f) = True"

text \<open>\<^verbatim>\<open>a || b\<close> on values that are already evaluated.\<close>

definition js_or :: "jsval \<Rightarrow> jsval \<Rightarrow> jsval" where
  "js_or a b = (if truthy a then a else b)"

text \<open>The value thrown when a property of \<^verbatim>\<open>undefined\<close> or \<^verbatim>\<open>null\<close> is read, or when
  something that is not a function is called.  Its message is not modelled.\<close>

definition TypeError :: jsval where
  "TypeError = Object [(''name'', String ''TypeError'')]"

text \<open>Decimal digits of an array index, for the keys of a spread string.\<close>

function decimal :: "nat \<Rightarrow> string" where
  "decimal n =
     (if n < 10 then [char_of (48 + n)]
      else decimal (n div 10) @ [char_of (48 + n mod 10)])"
  by pat_completeness auto
termination
  by (relation "measure id") auto

fun index_entries :: "nat \<Rightarrow> string \<Rightarrow> (string \<times> jsval) list" where
  "index_entries i [] = []"
| "index_entries i (c # cs) = (decimal i, String [c]) # index_entries (Suc i) cs"

text \<open>The own enumerable properties of a value: what an object spread copies.
  A string contributes its characters under their indices; the other primitives and
  functions contribute nothing.\<close>

fun own_entries :: "jsval \<Rightarrow> (string \<times> jsval) list" where
  "own_entries (Object ps) = ps"
| "own_entries (String s) = index_entries 0 s"
| "own_entries v = []"

text \<open>Reading property \<open>k\<close> of a value that is neither \<^verbatim>\<open>undefined\<close> nor \<^verbatim>\<open>null\<close>:
  the own property, else \<^verbatim>\<open>undefined\<close>.  Inherited members (\<^verbatim>\<open>length\<close>, prototype
  methods) are not modelled; the code reads none of them.\<close>

definition get_prop :: "jsval \<Rightarrow> string \<Rightarrow> jsval" where
  "get_prop v k = (case map_of (own_entries v) k of Some x \<Rightarrow> x | None \<Rightarrow> Undefined)"

definition nullish :: "jsval \<Rightarrow> bool" where
  "nullish v = (v = Undefined \<or> v = Null)"

text \<open>\<^verbatim>\<open>v.k\<close>: throws a TypeError on \<^verbatim>\<open>undefined\<close> and \<^verbatim>\<open>null\<close>.\<close>

definition member :: "jsval \<Rightarrow> string \<Rightarrow> jsval + jsval" where
  "member v k = (if nullish v then Inl TypeError else Inr (get_prop v k))"

text \<open>\<^verbatim>\<open>v?.k\<close>: \<^verbatim>\<open>undefined\<close> on \<^verbatim>\<open>undefined\<close> and \<^verbatim>\<open>null\<close>.\<close>

definition opt_member :: "jsval \<Rightarrow> string \<Rightarrow> jsval" where
  "opt_member v k = (if nullish v then Undefined else get_prop v k)"

text \<open>\<^verbatim>\<open>{...props, ...v}\<close>: the properties of \<open>v\<close> are written over \<open>props\<close> one by one;
  a key already present keeps its position and takes the new value.  The list keeps the
  order of writing; JavaScript enumerates integer-like keys (\<^verbatim>\<open>"0"\<close>, \<^verbatim>\<open>"1"\<close>, the indices
  of a spread string) before the others, in ascending order, and that reordering is not
  modelled.  The value found under a key does not depend on it.\<close>

definition spread :: "jsval \<Rightarrow> (string \<times> jsval) list \<Rightarrow> (string \<times> jsval) list" where
  "spread v props = fold (\<lambda>(k, x). AList.update k x) (own_entries v) props"

section \<open>The environment of the module\<close>

text \<open>
  What \<^verbatim>\<open>fetcher.js\<close> imports or receives and does not define:
  \<^item> \<open>call f args\<close> is the completion of calling function \<open>f\<close> on \<open>args\<close>: \<open>Inl e\<close> when it
    throws \<open>e\<close>, \<open>Inr v\<close> when it returns \<open>v\<close>.  For the transport's \<^verbatim>\<open>get\<close>, which is
    awaited, it is the completion of the \<^verbatim>\<open>await\<close>: \<open>Inl e\<close> when the call throws or
    its promise rejects with \<open>e\<close>, \<open>Inr v\<close> when it fulfils with \<open>v\<close> (a promise that
    never settles, which the transport's contract excludes, has no completion and is
    left out).  A function's completion depends on its arguments only, and calling it
    does not change the instance;
  \<^item> \<open>xhr_urlHandler\<close> is the \<^verbatim>\<open>urlHandler\<close> imported from \<^verbatim>\<open>./urlhandlers/xhr_url_handler\<close>;
  \<^item> \<open>DEFAULT_TIMEOUT\<close> is the constant imported from \<^verbatim>\<open>./urlhandlers/consts\<close>;
  \<^item> \<open>time_before\<close> and \<open>time_after\<close> are the two readings of \<^verbatim>\<open>Date.now()\<close>.
\<close>

record env =
  call :: "nat \<Rightarrow> jsval list \<Rightarrow> jsval + jsval"
  xhr_urlHandler :: jsval
  DEFAULT_TIMEOUT :: jsval
  time_before :: int
  time_after :: int

text \<open>\<^verbatim>\<open>f(args)\<close> for a value \<open>f\<close>: a TypeError when \<open>f\<close> is not a function.\<close>

definition invoke :: "env \<Rightarrow> jsval \<Rightarrow> jsval list \<Rightarrow> jsval + jsval" where
  "invoke E f args = (case f of Function n \<Rightarrow> call E n args | _ \<Rightarrow> Inl TypeError)"

section \<open>The Fetcher class\<close>

text \<open>The fields of an instance.  A field that was never assigned reads \<^verbatim>\<open>undefined\<close>.\<close>

record fetcher =
  URLTemplateFilters :: "jsval list"
  urlHandler :: jsval
  fetchingOptions :: jsval

definition constructor :: fetcher where
  "constructor = \<lparr>URLTemplateFilters = [], urlHandler = Undefined, fetchingOptions = Undefined\<rparr>"

text \<open>\<^verbatim>\<open>setOptions(options = {})\<close>.  The default applies to \<^verbatim>\<open>undefined\<close> only; on \<^verbatim>\<open>null\<close>
  the first property read throws before anything is assigned.  The result is the
  exception thrown, if any, and the instance afterwards.\<close>

definition setOptions :: "env \<Rightarrow> jsval \<Rightarrow> fetcher \<Rightarrow> jsval option \<times> fetcher" where
  "setOptions E options0 this =
     (let options = (if options0 = Undefined then Object [] else options0) in
      if nullish options then (Some TypeError, this)
      else
        (None,
         this\<lparr>urlHandler :=
                js_or (js_or (get_prop options ''urlHandler'') (get_prop options ''urlhandler''))
                  (xhr_urlHandler E),
              fetchingOptions :=
                Object [(''timeout'', js_or (get_prop options ''timeout'') (DEFAULT_TIMEOUT E)),
                        (''withCredentials'', Boolean (truthy (get_prop options ''withCredentials'')))]\<rparr>))"

text \<open>\<^verbatim>\<open>typeof filter === 'function'\<close>\<close>

fun is_function :: "jsval \<Rightarrow> bool" where
  "is_function (Function f) = True"
| "is_function v = False"

definition addURLTemplateFilter :: "jsval \<Rightarrow> fetcher \<Rightarrow> fetcher" where
  "addURLTemplateFilter flt this =
     (if is_function flt
      then this\<lparr>URLTemplateFilters := URLTemplateFilters this @ [flt]\<rparr>
      else this)"

text \<open>\<^verbatim>\<open>Array.prototype.pop\<close> on an empty array removes nothing.\<close>

definition removeLastURLTemplateFilter :: "fetcher \<Rightarrow> fetcher" where
  "removeLastURLTemplateFilter this =
     this\<lparr>URLTemplateFilters := butlast (URLTemplateFilters this)\<rparr>"

definition countURLTemplateFilters :: "fetcher \<Rightarrow> nat" where
  "countURLTemplateFilters this = length (URLTemplateFilters this)"

definition clearURLTemplateFilters :: "fetcher \<Rightarrow> fetcher" where
  "clearURLTemplateFilters this = this\<lparr>URLTemplateFilters := []\<rparr>"

section \<open>fetchVAST\<close>

text \<open>What one call of \<^verbatim>\<open>fetchVAST\<close> does to the outside, in order: the calls of the
  emitter (event name and payload; recorded whether or not the emitter then throws),
  the call of \<^verbatim>\<open>updateEstimatedBitrate\<close> and the call of \<^verbatim>\<open>console.error\<close>.\<close>

datatype action =
    Emit jsval jsval
  | UpdateEstimatedBitrate jsval jsval
  | ConsoleError jsval

datatype settlement = Pending | Fulfilled jsval | Rejected jsval

text \<open>Lines 83 to 85: \<^verbatim>\<open>this.URLTemplateFilters.forEach((filter) => { url = filter(url); })\<close>.
  A filter that throws ends the loop with its exception.\<close>

fun apply_filters :: "env \<Rightarrow> jsval list \<Rightarrow> jsval \<Rightarrow> jsval + jsval" where
  "apply_filters E [] url = Inr url"
| "apply_filters E (f # fs) url =
     (case invoke E f [url] of
        Inl e \<Rightarrow> Inl e
      | Inr url' \<Rightarrow> apply_filters E fs url')"

text \<open>Lines 88 to 95: the payload of the event \<^verbatim>\<open>VAST-resolving\<close>.\<close>

definition resolving_payload ::
  "jsval \<Rightarrow> jsval \<Rightarrow> jsval \<Rightarrow> jsval \<Rightarrow> jsval \<Rightarrow> jsval \<Rightarrow> jsval" where
  "resolving_payload url previousUrl wrapperDepth maxWrapperDepth timeout wrapperAd =
     Object [(''url'', url),
             (''previousUrl'', previousUrl),
             (''wrapperDepth'', wrapperDepth),
             (''maxWrapperDepth'', maxWrapperDepth),
             (''timeout'', timeout),
             (''wrapperAd'', wrapperAd)]"

text \<open>Lines 101 to 106: the properties of the payload of \<^verbatim>\<open>VAST-resolved\<close> that are
  written before the spread.\<close>

definition resolved_fields ::
  "jsval \<Rightarrow> jsval \<Rightarrow> jsval \<Rightarrow> jsval \<Rightarrow> jsval \<Rightarrow> (string \<times> jsval) list" where
  "resolved_fields url previousUrl wrapperDepth data requestDuration =
     [(''url'', url),
      (''previousUrl'', previousUrl),
      (''wrapperDepth'', wrapperDepth),
      (''error'', js_or (opt_member data ''error'') Null),
      (''duration'', requestDuration),
      (''statusCode'', js_or (opt_member data ''statusCode'') Null)]"

text \<open>Lines 100 to 108: the object literal ends with \<^verbatim>\<open>...data?.details\<close>.\<close>

definition resolved_payload ::
  "jsval \<Rightarrow> jsval \<Rightarrow> jsval \<Rightarrow> jsval \<Rightarrow> jsval \<Rightarrow> jsval" where
  "resolved_payload url previousUrl wrapperDepth data requestDuration =
     Object (spread (opt_member data ''details'')
               (resolved_fields url previousUrl wrapperDepth data requestDuration))"

text \<open>\<^verbatim>\<open>emitter(name, payload)\<close>: the call made, if the emitter is a function, and the
  exception it throws, if any.\<close>

definition emit :: "env \<Rightarrow> jsval \<Rightarrow> jsval \<Rightarrow> jsval \<Rightarrow> action list \<times> jsval option" where
  "emit E emitter name payload =
     (case emitter of
        Function n \<Rightarrow>
          ([Emit name payload],
           case call E n [name, payload] of Inl e \<Rightarrow> Some e | Inr r \<Rightarrow> None)
      | _ \<Rightarrow> ([], Some TypeError))"

text \<open>Line 97: \<^verbatim>\<open>await this.urlHandler.get(url, this.fetchingOptions)\<close>.\<close>

definition transport_get :: "env \<Rightarrow> fetcher \<Rightarrow> jsval \<Rightarrow> jsval + jsval" where
  "transport_get E this url =
     (case member (urlHandler this) ''get'' of
        Inl e \<Rightarrow> Inl e
      | Inr g \<Rightarrow> invoke E g [url, fetchingOptions this])"

text \<open>Modelled from the spec: \<^verbatim>\<open>updateEstimatedBitrate\<close> of \<^verbatim>\<open>./parser/bitrate\<close> is not
  among the sources.  The spec gives it as \<^verbatim>\<open>update(byteLength, durationMs) -> void\<close>, a
  side-effecting call whose result is not used and which tolerates an undefined byte
  length; it is recorded as an action and returns.\<close>

definition updateEstimatedBitrate :: "jsval \<Rightarrow> jsval \<Rightarrow> action list" where
  "updateEstimatedBitrate byteLength duration = [UpdateEstimatedBitrate byteLength duration]"

text \<open>Lines 88 to 115, the body of the \<^verbatim>\<open>try\<close>: the actions performed, the state of
  the promise (set by \<^verbatim>\<open>resolve\<close> or \<^verbatim>\<open>reject\<close>) and the exception that leaves the
  block, if any.  \<^verbatim>\<open>Math.round\<close> of an integer is that integer.\<close>

definition try_block ::
  "env \<Rightarrow> fetcher \<Rightarrow> jsval \<Rightarrow> jsval \<Rightarrow> jsval \<Rightarrow> jsval \<Rightarrow> jsval \<Rightarrow> jsval
     \<Rightarrow> action list \<times> settlement \<times> jsval option" where
  "try_block E this url maxWrapperDepth emitter wrapperDepth previousUrl wrapperAd =
     (case member (fetchingOptions this) ''timeout'' of
        Inl e \<Rightarrow> ([], Pending, Some e)
      | Inr timeout \<Rightarrow>
          (case emit E emitter (String ''VAST-resolving'')
                  (resolving_payload url previousUrl wrapperDepth maxWrapperDepth timeout wrapperAd) of
             (a1, Some e) \<Rightarrow> (a1, Pending, Some e)
           | (a1, None) \<Rightarrow>
               (case transport_get E this url of
                  Inl e \<Rightarrow> (a1, Pending, Some e)
                | Inr data \<Rightarrow>
                    (let requestDuration = Number (time_after E - time_before E) in
                     case emit E emitter (String ''VAST-resolved'')
                            (resolved_payload url previousUrl wrapperDepth data requestDuration) of
                       (a2, Some e) \<Rightarrow> (a1 @ a2, Pending, Some e)
                     | (a2, None) \<Rightarrow>
                         (let a3 = a1 @ a2 @
                                updateEstimatedBitrate
                                  (opt_member (opt_member data ''details'') ''byteLength'')
                                  requestDuration
                          in case member data ''error'' of
                               Inl e \<Rightarrow> (a3, Pending, Some e)
                             | Inr err \<Rightarrow>
                                 if truthy err then (a3, Rejected err, None)
                                 else (a3, Fulfilled (get_prop data ''xml''), None))))))"

text \<open>Lines 80 to 118, the body of the executor: the filters run outside the
  \<^verbatim>\<open>try\<close>, so their exception leaves the body; the \<^verbatim>\<open>catch\<close> passes the exception of
  the \<^verbatim>\<open>try\<close> to \<^verbatim>\<open>console.error\<close> and ends normally.\<close>

definition executor_body ::
  "env \<Rightarrow> fetcher \<Rightarrow> jsval \<Rightarrow> jsval \<Rightarrow> jsval \<Rightarrow> jsval \<Rightarrow> jsval \<Rightarrow> jsval
     \<Rightarrow> action list \<times> settlement \<times> jsval option" where
  "executor_body E this url0 maxWrapperDepth emitter wrapperDepth previousUrl wrapperAd =
     (case apply_filters E (URLTemplateFilters this) url0 of
        Inl e \<Rightarrow> ([], Pending, Some e)
      | Inr url \<Rightarrow>
          (case try_block E this url maxWrapperDepth emitter wrapperDepth previousUrl wrapperAd of
             (acts, st, Some e) \<Rightarrow> (acts @ [ConsoleError e], st, None)
           | (acts, st, None) \<Rightarrow> (acts, st, None)))"

text \<open>The executor is an \<^verbatim>\<open>async\<close> function.  Calling an async function never throws:
  it returns a promise of its own, rejected with the exception that leaves the body,
  fulfilled with \<^verbatim>\<open>undefined\<close> when the body ends normally.  The last component is
  that promise.\<close>

definition async_call ::
  "action list \<times> settlement \<times> jsval option
     \<Rightarrow> action list \<times> settlement \<times> jsval option \<times> settlement" where
  "async_call body =
     (case body of
        (acts, st, Some e) \<Rightarrow> (acts, st, None, Rejected e)
      | (acts, st, None) \<Rightarrow> (acts, st, None, Fulfilled Undefined))"

text \<open>What the caller of \<^verbatim>\<open>fetchVAST\<close> can observe: the actions, the final state of the
  promise it was handed, and the final state of the promise the executor returned.\<close>

record outcome =
  actions :: "action list"
  promise :: settlement
  executor_promise :: settlement

text \<open>\<^verbatim>\<open>new Promise(executor)\<close> calls the executor at once.  An exception thrown by
  that call rejects the new promise if it is still pending; the value the executor
  returns is dropped.\<close>

definition new_Promise ::
  "action list \<times> settlement \<times> jsval option \<times> settlement \<Rightarrow> outcome" where
  "new_Promise ex =
     (case ex of
        (acts, st, thrown, returned) \<Rightarrow>
          \<lparr>actions = acts,
           promise = (case thrown of
                        Some e \<Rightarrow> (if st = Pending then Rejected e else st)
                      | None \<Rightarrow> st),
           executor_promise = returned\<rparr>)"

text \<open>A destructuring default applies to \<^verbatim>\<open>undefined\<close> only.\<close>

definition default_to :: "jsval \<Rightarrow> jsval \<Rightarrow> jsval" where
  "default_to d v = (if v = Undefined then d else v)"

text \<open>Lines 71 to 120.  Destructuring the argument throws to the caller when it is
  \<^verbatim>\<open>undefined\<close> or \<^verbatim>\<open>null\<close>.  The result is the completion of the call (\<open>Inl\<close>: the
  exception thrown to the caller) and the instance afterwards; no field of the instance
  is assigned.\<close>

definition fetchVAST :: "env \<Rightarrow> fetcher \<Rightarrow> jsval \<Rightarrow> (jsval + outcome) \<times> fetcher" where
  "fetchVAST E this arg =
     (if nullish arg then (Inl TypeError, this)
      else
        (Inr (new_Promise (async_call
           (executor_body E this
              (get_prop arg ''url'')
              (get_prop arg ''maxWrapperDepth'')
              (get_prop arg ''emitter'')
              (default_to (Number 0) (get_prop arg ''wrapperDepth''))
              (default_to Null (get_prop arg ''previousUrl''))
              (default_to Null (get_prop arg ''wrapperAd''))))),
         this))"

section \<open>Observations on a call of fetchVAST\<close>

text \<open>The payloads \<^verbatim>\<open>fetchVAST\<close> builds for its two events, from the argument it was
  called with, the URL the filters produced and the value the transport returned.\<close>

definition resolving_event :: "fetcher \<Rightarrow> jsval \<Rightarrow> jsval \<Rightarrow> jsval" where
  "resolving_event this arg url =
     resolving_payload url
       (default_to Null (get_prop arg ''previousUrl''))
       (default_to (Number 0) (get_prop arg ''wrapperDepth''))
       (get_prop arg ''maxWrapperDepth'')
       (get_prop (fetchingOptions this) ''timeout'')
       (default_to Null (get_prop arg ''wrapperAd''))"

definition request_duration :: "env \<Rightarrow> jsval" where
  "request_duration E = Number (time_after E - time_before E)"

definition resolved_event :: "env \<Rightarrow> jsval \<Rightarrow> jsval \<Rightarrow> jsval \<Rightarrow> jsval" where
  "resolved_event E arg url data =
     resolved_payload url
       (default_to Null (get_prop arg ''previousUrl''))
       (default_to (Number 0) (get_prop arg ''wrapperDepth''))
       data (request_duration E)"

fun events :: "action list \<Rightarrow> (jsval \<times> jsval) list" where
  "events [] = []"
| "events (Emit name payload # acts) = (name, payload) # events acts"
| "events (a # acts) = events acts"

fun bitrate_updates :: "action list \<Rightarrow> (jsval \<times> jsval) list" where
  "bitrate_updates [] = []"
| "bitrate_updates (UpdateEstimatedBitrate b d # acts) = (b, d) # bitrate_updates acts"
| "bitrate_updates (a # acts) = bitrate_updates acts"

fun logged :: "action list \<Rightarrow> jsval list" where
  "logged [] = []"
| "logged (ConsoleError e # acts) = e # logged acts"
| "logged (a # acts) = logged acts"

section \<open>A sample environment\<close>

text \<open>Functions for concrete runs: 0 is an emitter that returns; 10, 2 and 7 are
  transports that return a document, a reported error, and a document whose details
  carry a \<^verbatim>\<open>url\<close>; 3 is a transport that throws; 4 is an emitter that throws on
  \<^verbatim>\<open>VAST-resolved\<close>; 5 and 8 are filters that append to the URL; 6 is a filter that
  throws; 9 is an emitter that throws on every event; 11 is a filter that appends to a
  string and throws on anything else.\<close>

definition demo_call :: "nat \<Rightarrow> jsval list \<Rightarrow> jsval + jsval" where
  "demo_call n args =
     (if n = 10 then Inr (Object [(''xml'', String ''<VAST/>''),
                                 (''details'', Object [(''byteLength'', Number 42)])])
      else if n = 2 then Inr (Object [(''error'', String ''boom''), (''statusCode'', Number 500)])
      else if n = 3 then Inl (String ''down'')
      else if n = 4 then (if args \<noteq> [] \<and> hd args = String ''VAST-resolved''
                          then Inl (String ''sink'') else Inr Undefined)
      else if n = 5 then (case args of [String u] \<Rightarrow> Inr (String (u @ ''?a=1'')) | _ \<Rightarrow> Inr Undefined)
      else if n = 6 then Inl (String ''bad filter'')
      else if n = 7 then Inr (Object [(''xml'', String ''<VAST/>''),
                                 (''details'', Object [(''url'', String ''elsewhere''),
                                                       (''byteLength'', Number 42)])])
      else if n = 8 then (case args of [String u] \<Rightarrow> Inr (String (u @ ''&b=2'')) | _ \<Rightarrow> Inr Undefined)
      else if n = 9 then Inl (String ''early'')
      else if n = 11 then (case args of [String u] \<Rightarrow> Inr (String (u @ ''&c=3'')) | _ \<Rightarrow> Inl TypeError)
      else Inr Undefined)"

definition demo_env :: env where
  "demo_env = \<lparr>call = demo_call, xhr_urlHandler = Object [(''get'', Function 10)],
                DEFAULT_TIMEOUT = Number 120000, time_before = 1000, time_after = 1250\<rparr>"

definition demo_request :: "jsval \<Rightarrow> jsval" where
  "demo_request emitter =
     Object [(''url'', String ''http://ad''), (''maxWrapperDepth'', Number 5), (''emitter'', emitter)]"

definition demo_fetcher :: "jsval list \<Rightarrow> nat \<Rightarrow> fetcher" where
  "demo_fetcher filters g =
     \<lparr>URLTemplateFilters = filters, urlHandler = Object [(''get'', Function g)],
      fetchingOptions = Object [(''timeout'', Number 120000), (''withCredentials'', Boolean False)]\<rparr>"

text \<open>The function a sample filter computes: it appends to a string.\<close>

definition append_query :: "string \<Rightarrow> jsval \<Rightarrow> jsval" where
  "append_query q v = (case v of String u \<Rightarrow> String (u @ q) | _ \<Rightarrow> Undefined)"

section \<open>Properties of the building blocks\<close>

lemma fetchVAST_filters_ok:
  assumes "\<not> nullish arg"
    and "apply_filters E (URLTemplateFilters this) (get_prop arg ''url'') = Inr url"
  shows "fst (fetchVAST E this arg) =
           Inr (new_Promise (async_call
             (case try_block E this url (get_prop arg ''maxWrapperDepth'') (get_prop arg ''emitter'')
                     (default_to (Number 0) (get_prop arg ''wrapperDepth''))
                     (default_to Null (get_prop arg ''previousUrl''))
                     (default_to Null (get_prop arg ''wrapperAd'')) of
                (acts, st, Some e) \<Rightarrow> (acts @ [ConsoleError e], st, None)
              | (acts, st, None) \<Rightarrow> (acts, st, None))))"
  using assms by (simp add: fetchVAST_def executor_body_def)

lemma try_block_resolving_throws:
  assumes "\<not> nullish (fetchingOptions this)"
    and "call E em [String ''VAST-resolving'',
           resolving_payload url prev depth maxd (get_prop (fetchingOptions this) ''timeout'') ad] = Inl e"
  shows "try_block E this url maxd (Function em) depth prev ad =
           ([Emit (String ''VAST-resolving'')
               (resolving_payload url prev depth maxd (get_prop (fetchingOptions this) ''timeout'') ad)],
            Pending, Some e)"
  using assms by (simp add: try_block_def member_def emit_def Let_def)

lemma try_block_get_throws:
  assumes "\<not> nullish (fetchingOptions this)"
    and "call E em [String ''VAST-resolving'',
           resolving_payload url prev depth maxd (get_prop (fetchingOptions this) ''timeout'') ad] = Inr r1"
    and "transport_get E this url = Inl e"
  shows "try_block E this url maxd (Function em) depth prev ad =
           ([Emit (String ''VAST-resolving'')
               (resolving_payload url prev depth maxd (get_prop (fetchingOptions this) ''timeout'') ad)],
            Pending, Some e)"
  using assms by (simp add: try_block_def member_def emit_def Let_def)

lemma try_block_resolved_throws:
  assumes "\<not> nullish (fetchingOptions this)"
    and "call E em [String ''VAST-resolving'',
           resolving_payload url prev depth maxd (get_prop (fetchingOptions this) ''timeout'') ad] = Inr r1"
    and "transport_get E this url = Inr data"
    and "call E em [String ''VAST-resolved'',
           resolved_payload url prev depth data (Number (time_after E - time_before E))] = Inl e"
  shows "try_block E this url maxd (Function em) depth prev ad =
           ([Emit (String ''VAST-resolving'')
               (resolving_payload url prev depth maxd (get_prop (fetchingOptions this) ''timeout'') ad),
             Emit (String ''VAST-resolved'')
               (resolved_payload url prev depth data (Number (time_after E - time_before E)))],
            Pending, Some e)"
  using assms by (simp add: try_block_def member_def emit_def Let_def)

lemma try_block_returned:
  assumes "\<not> nullish (fetchingOptions this)"
    and "call E em [String ''VAST-resolving'',
           resolving_payload url prev depth maxd (get_prop (fetchingOptions this) ''timeout'') ad] = Inr r1"
    and "transport_get E this url = Inr data"
    and "call E em [String ''VAST-resolved'',
           resolved_payload url prev depth data (Number (time_after E - time_before E))] = Inr r2"
  shows "try_block E this url maxd (Function em) depth prev ad =
           ([Emit (String ''VAST-resolving'')
               (resolving_payload url prev depth maxd (get_prop (fetchingOptions this) ''timeout'') ad),
             Emit (String ''VAST-resolved'')
               (resolved_payload url prev depth data (Number (time_after E - time_before E))),
             UpdateEstimatedBitrate (opt_member (opt_member data ''details'') ''byteLength'')
               (Number (time_after E - time_before E))],
            if nullish data then (Pending, Some TypeError)
            else if truthy (get_prop data ''error'') then (Rejected (get_prop data ''error''), None)
            else (Fulfilled (get_prop data ''xml''), None))"
  using assms by (simp add: try_block_def member_def emit_def updateEstimatedBitrate_def Let_def)

lemma spread_lookup:
  "distinct (map fst es) \<Longrightarrow>
   map_of (fold (\<lambda>(k, x). AList.update k x) es ps) k =
     (case map_of es k of Some v \<Rightarrow> Some v | None \<Rightarrow> map_of ps k)"
proof (induction es arbitrary: ps)
  case Nil
  then show ?case by simp
next
  case (Cons a es)
  obtain k' v' where a: "a = (k', v')" by (cases a)
  from Cons.prems a have nk: "map_of es k' = None" and d: "distinct (map fst es)"
    by (auto simp: map_of_eq_None_iff)
  show ?case
    using Cons.IH [OF d, of "AList.update k' v' ps"] a nk
    by (auto simp: update_conv' split: option.splits)
qed

lemma get_prop_spread:
  assumes "distinct (map fst (own_entries v))"
  shows "get_prop (Object (spread v ps)) k =
           (case map_of (own_entries v) k of Some x \<Rightarrow> x | None \<Rightarrow> get_prop (Object ps) k)"
  using spread_lookup [OF assms, of ps k]
  by (simp add: get_prop_def spread_def split: option.splits)

lemma new_Promise_caught:
  "new_Promise (async_call (acts, st, None)) =
     \<lparr>actions = acts, promise = st, executor_promise = Fulfilled Undefined\<rparr>"
  by (simp add: new_Promise_def async_call_def)

lemma fetchVAST_resolving_throws:
  assumes "\<not> nullish arg"
    and "apply_filters E (URLTemplateFilters this) (get_prop arg ''url'') = Inr url"
    and "\<not> nullish (fetchingOptions this)"
    and "get_prop arg ''emitter'' = Function em"
    and "call E em [String ''VAST-resolving'', resolving_event this arg url] = Inl e"
  shows "fst (fetchVAST E this arg) =
           Inr \<lparr>actions = [Emit (String ''VAST-resolving'') (resolving_event this arg url),
                           ConsoleError e],
                promise = Pending, executor_promise = Fulfilled Undefined\<rparr>"
  using assms(3,4,5)
  by (simp add: fetchVAST_filters_ok [OF assms(1,2)] resolving_event_def
      try_block_resolving_throws new_Promise_caught)

lemma fetchVAST_get_throws:
  assumes "\<not> nullish arg"
    and "apply_filters E (URLTemplateFilters this) (get_prop arg ''url'') = Inr url"
    and "\<not> nullish (fetchingOptions this)"
    and "get_prop arg ''emitter'' = Function em"
    and "call E em [String ''VAST-resolving'', resolving_event this arg url] = Inr r1"
    and "transport_get E this url = Inl e"
  shows "fst (fetchVAST E this arg) =
           Inr \<lparr>actions = [Emit (String ''VAST-resolving'') (resolving_event this arg url),
                           ConsoleError e],
                promise = Pending, executor_promise = Fulfilled Undefined\<rparr>"
  using assms(3,4,5,6)
  by (simp add: fetchVAST_filters_ok [OF assms(1,2)] resolving_event_def
      try_block_get_throws new_Promise_caught)

lemma fetchVAST_resolved_throws:
  assumes "\<not> nullish arg"
    and "apply_filters E (URLTemplateFilters this) (get_prop arg ''url'') = Inr url"
    and "\<not> nullish (fetchingOptions this)"
    and "get_prop arg ''emitter'' = Function em"
    and "call E em [String ''VAST-resolving'', resolving_event this arg url] = Inr r1"
    and "transport_get E this url = Inr data"
    and "call E em [String ''VAST-resolved'', resolved_event E arg url data] = Inl e"
  shows "fst (fetchVAST E this arg) =
           Inr \<lparr>actions = [Emit (String ''VAST-resolving'') (resolving_event this arg url),
                           Emit (String ''VAST-resolved'') (resolved_event E arg url data),
                           ConsoleError e],
                promise = Pending, executor_promise = Fulfilled Undefined\<rparr>"
  using assms(3,4,5,6,7)
  by (simp add: fetchVAST_filters_ok [OF assms(1,2)] resolving_event_def resolved_event_def
      request_duration_def try_block_resolved_throws new_Promise_caught)

lemma fetchVAST_returned:
  assumes "\<not> nullish arg"
    and "apply_filters E (URLTemplateFilters this) (get_prop arg ''url'') = Inr url"
    and "\<not> nullish (fetchingOptions this)"
    and "get_prop arg ''emitter'' = Function em"
    and "call E em [String ''VAST-resolving'', resolving_event this arg url] = Inr r1"
    and "transport_get E this url = Inr data"
    and "call E em [String ''VAST-resolved'', resolved_event E arg url data] = Inr r2"
  shows "fst (fetchVAST E this arg) =
           Inr \<lparr>actions =
                  [Emit (String ''VAST-resolving'') (resolving_event this arg url),
                   Emit (String ''VAST-resolved'') (resolved_event E arg url data),
                   UpdateEstimatedBitrate (opt_member (opt_member data ''details'') ''byteLength'')
                     (request_duration E)]
                  @ (if nullish data then [ConsoleError TypeError] else []),
                promise =
                  (if nullish data then Pending
                   else if truthy (get_prop data ''error'') then Rejected (get_prop data ''error'')
                   else Fulfilled (get_prop data ''xml'')),
                executor_promise = Fulfilled Undefined\<rparr>"
  using assms(3,4,5,6,7)
  by (simp add: fetchVAST_filters_ok [OF assms(1,2)] resolving_event_def resolved_event_def
      request_duration_def try_block_returned new_Promise_caught)

lemma fetchVAST_both_events:
  assumes "\<not> nullish arg"
    and "apply_filters E (URLTemplateFilters this) (get_prop arg ''url'') = Inr url"
    and "\<not> nullish (fetchingOptions this)"
    and "get_prop arg ''emitter'' = Function em"
    and "call E em [String ''VAST-resolving'', resolving_event this arg url] = Inr r1"
    and "transport_get E this url = Inr data"
  shows "\<exists>out. fst (fetchVAST E this arg) = Inr out \<and>
           events (actions out) =
             [(String ''VAST-resolving'', resolving_event this arg url),
              (String ''VAST-resolved'', resolved_event E arg url data)]"
proof (cases "call E em [String ''VAST-resolved'', resolved_event E arg url data]")
  case (Inl e)
  show ?thesis
    by (simp add: fetchVAST_resolved_throws [OF assms Inl])
next
  case (Inr r2)
  show ?thesis
    by (simp add: fetchVAST_returned [OF assms Inr])
qed

lemma apply_filters_throwing_filter:
  assumes "apply_filters E fs url = Inr u" and "invoke E f [u] = Inl e"
  shows "apply_filters E (fs @ f # gs) url = Inl e"
  using assms by (induction fs arbitrary: url) (auto split: sum.splits)

lemma registered_filters:
  "URLTemplateFilters (fold addURLTemplateFilter (map Function ns) this) =
     URLTemplateFilters this @ map Function ns"
  by (induction ns arbitrary: this) (simp_all add: addURLTemplateFilter_def)

lemma apply_filters_along_path:
  assumes "length ns = length gs"
    and "\<forall>i<length ns. call E (ns ! i) [fold (\<lambda>g u. g u) (take i gs) url] =
           Inr ((gs ! i) (fold (\<lambda>g u. g u) (take i gs) url))"
  shows "apply_filters E (map Function ns) url = Inr (fold (\<lambda>g u. g u) gs url)"
  using assms
proof (induction ns gs arbitrary: url rule: list_induct2)
  case Nil
  then show ?case by simp
next
  case (Cons n ns g gs)
  from Cons.prems have first: "call E n [url] = Inr (g url)"
    by force
  have rest: "\<forall>i<length ns. call E (ns ! i) [fold (\<lambda>g u. g u) (take i gs) (g url)] =
           Inr ((gs ! i) (fold (\<lambda>g u. g u) (take i gs) (g url)))"
  proof (intro allI impI)
    fix i
    assume "i < length ns"
    then have "Suc i < length (n # ns)" by simp
    with Cons.prems show "call E (ns ! i) [fold (\<lambda>g u. g u) (take i gs) (g url)] =
           Inr ((gs ! i) (fold (\<lambda>g u. g u) (take i gs) (g url)))"
      by (metis fold_simps(2) nth_Cons_Suc take_Suc_Cons)
  qed
  show ?case
    using first Cons.IH [OF rest] by (simp add: invoke_def)
qed

lemma path_butlast:
  assumes "length ns = length gs"
    and "\<forall>i<length ns. call E (ns ! i) [fold (\<lambda>g u. g u) (take i gs) url] =
           Inr ((gs ! i) (fold (\<lambda>g u. g u) (take i gs) url))"
  shows "\<forall>i<length (butlast ns).
           call E (butlast ns ! i) [fold (\<lambda>g u. g u) (take i (butlast gs)) url] =
           Inr ((butlast gs ! i) (fold (\<lambda>g u. g u) (take i (butlast gs)) url))"
proof (intro allI impI)
  fix i
  assume i: "i < length (butlast ns)"
  then have lt: "i < length ns" "i < length gs" "i < length (butlast gs)"
    using assms(1) by simp_all
  have "take i (butlast gs) = take i gs"
    using lt(2) by (simp add: take_butlast)
  moreover have "butlast ns ! i = ns ! i" "butlast gs ! i = gs ! i"
    using i lt(3) by (simp_all add: nth_butlast)
  ultimately show "call E (butlast ns ! i) [fold (\<lambda>g u. g u) (take i (butlast gs)) url] =
           Inr ((butlast gs ! i) (fold (\<lambda>g u. g u) (take i (butlast gs)) url))"
    using assms(2) lt(1) by simp
qed

lemma fetchVAST_first_event:
  assumes "\<not> nullish arg"
    and "apply_filters E (URLTemplateFilters this) (get_prop arg ''url'') = Inr url"
    and "\<not> nullish (fetchingOptions this)"
    and "get_prop arg ''emitter'' = Function em"
  shows "\<exists>out rest. fst (fetchVAST E this arg) = Inr out \<and>
           actions out = Emit (String ''VAST-resolving'') (resolving_event this arg url) # rest"
proof (cases "call E em [String ''VAST-resolving'', resolving_event this arg url]")
  case (Inl e)
  show ?thesis
    by (simp add: fetchVAST_resolving_throws [OF assms Inl])
next
  case r1: (Inr r1)
  show ?thesis
  proof (cases "transport_get E this url")
    case (Inl e)
    show ?thesis
      by (simp add: fetchVAST_get_throws [OF assms r1 Inl])
  next
    case data: (Inr data)
    show ?thesis
    proof (cases "call E em [String ''VAST-resolved'', resolved_event E arg url data]")
      case (Inl e)
      show ?thesis
        by (simp add: fetchVAST_resolved_throws [OF assms r1 data Inl])
    next
      case (Inr r2)
      show ?thesis
        by (simp add: fetchVAST_returned [OF assms r1 data Inr])
    qed
  qed
qed

lemma resolving_event_url: "get_prop (resolving_event this arg url) ''url'' = url"
  by (simp add: resolving_event_def resolving_payload_def get_prop_def)

lemma resolving_event_removeLast:
  "resolving_event (removeLastURLTemplateFilter this) arg url = resolving_event this arg url"
  by (simp add: resolving_event_def removeLastURLTemplateFilter_def)

lemma not_nullish_Object: "\<not> nullish (Object ps)"
  by (simp add: nullish_def)

section \<open>Facts about the sample environment\<close>

lemmas demo_defs = demo_env_def demo_fetcher_def demo_request_def demo_call_def

lemmas eval_defs = nullish_def get_prop_def member_def opt_member_def default_to_def js_or_def
  invoke_def transport_get_def resolving_event_def resolved_event_def request_duration_def
  resolving_payload_def resolved_payload_def resolved_fields_def spread_def

lemma demo_request_ok: "\<not> nullish (demo_request em)"
  by (simp add: demo_defs eval_defs)

lemma demo_fetcher_configured: "\<not> nullish (fetchingOptions (demo_fetcher fs g))"
  by (simp add: demo_defs eval_defs)

lemma demo_request_emitter: "get_prop (demo_request em) ''emitter'' = em"
  by (simp add: demo_defs eval_defs)

lemma demo_filters_5:
  "apply_filters demo_env (URLTemplateFilters (demo_fetcher [Function 5] g))
     (get_prop (demo_request em) ''url'') = Inr (String ''http://ad?a=1'')"
  by (simp add: demo_defs eval_defs)

lemma demo_transport:
  "transport_get demo_env (demo_fetcher fs g) u = demo_call g [u, fetchingOptions (demo_fetcher fs g)]"
  by (simp add: demo_defs eval_defs)

lemma demo_emitter_0: "call demo_env 0 args = Inr Undefined"
  by (simp add: demo_defs)

lemma demo_transport_2:
  "transport_get demo_env (demo_fetcher fs 2) u =
     Inr (Object [(''error'', String ''boom''), (''statusCode'', Number 500)])"
  by (simp add: demo_transport) (simp add: demo_call_def)

lemma demo_transport_10:
  "transport_get demo_env (demo_fetcher fs 10) u =
     Inr (Object [(''xml'', String ''<VAST/>''),
                  (''details'', Object [(''byteLength'', Number 42)])])"
  by (simp add: demo_transport) (simp add: demo_call_def)

lemma demo_transport_3:
  "transport_get demo_env (demo_fetcher fs 3) u = Inl (String ''down'')"
  by (simp add: demo_transport) (simp add: demo_call_def)

lemma demo_filter_5: "call demo_env 5 [String u] = Inr (append_query ''?a=1'' (String u))"
  by (simp add: demo_defs append_query_def)

lemma demo_filter_11: "call demo_env 11 [String u] = Inr (append_query ''&c=3'' (String u))"
  by (simp add: demo_defs append_query_def)

lemma demo_filter_11_throws: "call demo_env 11 [Undefined] = Inl TypeError"
  by (simp add: demo_defs)

section \<open>C1: the payload of the resolved event\<close>

text \<open>
  Claim C1, as amended.  When the filters, the configuration, the emitter's first call
  and the transport all complete, \<^verbatim>\<open>fetchVAST\<close> calls the emitter with
  \<^verbatim>\<open>VAST-resolved\<close> and a payload in which every key of \<^verbatim>\<open>data.details\<close> carries the
  value \<^verbatim>\<open>data.details\<close> gives it, also when the key is one of \<^verbatim>\<open>url\<close>,
  \<^verbatim>\<open>previousUrl\<close>, \<^verbatim>\<open>wrapperDepth\<close>, \<^verbatim>\<open>error\<close>, \<^verbatim>\<open>duration\<close> and \<^verbatim>\<open>statusCode\<close>;
  a key that \<^verbatim>\<open>data.details\<close> does not have carries the value of the fixed field.
  The spread is the last entry of the object literal, so the details win a collision.
  (An object holds each key once: the hypothesis on the keys of the details.)
\<close>

theorem resolved_payload_details_take_precedence:
  assumes "\<not> nullish arg"
    and "apply_filters E (URLTemplateFilters this) (get_prop arg ''url'') = Inr url"
    and "\<not> nullish (fetchingOptions this)"
    and "get_prop arg ''emitter'' = Function em"
    and "call E em [String ''VAST-resolving'', resolving_event this arg url] = Inr r1"
    and "transport_get E this url = Inr data"
    and "distinct (map fst (own_entries (opt_member data ''details'')))"
  shows "\<exists>out. fst (fetchVAST E this arg) = Inr out \<and>
           events (actions out) =
             [(String ''VAST-resolving'', resolving_event this arg url),
              (String ''VAST-resolved'', resolved_event E arg url data)] \<and>
           get_prop (resolved_event E arg url data) k =
             (case map_of (own_entries (opt_member data ''details'')) k of
                Some v \<Rightarrow> v
              | None \<Rightarrow>
                  get_prop (Object (resolved_fields url
                    (default_to Null (get_prop arg ''previousUrl''))
                    (default_to (Number 0) (get_prop arg ''wrapperDepth''))
                    data (request_duration E))) k)"
proof -
  have "get_prop (resolved_event E arg url data) k =
             (case map_of (own_entries (opt_member data ''details'')) k of
                Some v \<Rightarrow> v
              | None \<Rightarrow>
                  get_prop (Object (resolved_fields url
                    (default_to Null (get_prop arg ''previousUrl''))
                    (default_to (Number 0) (get_prop arg ''wrapperDepth''))
                    data (request_duration E))) k)"
    unfolding resolved_event_def resolved_payload_def
    by (rule get_prop_spread [OF assms(7)])
  with fetchVAST_both_events [OF assms(1-6)] show ?thesis
    by blast
qed

text \<open>A run of the amended claim: the transport returns details with a \<^verbatim>\<open>url\<close>.\<close>

theorem resolved_payload_details_take_precedence_witness:
  "\<exists>out. fst (fetchVAST demo_env (demo_fetcher [] 7) (demo_request (Function 0))) = Inr out \<and>
     events (actions out) =
       [(String ''VAST-resolving'',
         resolving_event (demo_fetcher [] 7) (demo_request (Function 0)) (String ''http://ad'')),
        (String ''VAST-resolved'',
         Object [(''url'', String ''elsewhere''), (''previousUrl'', Null),
                 (''wrapperDepth'', Number 0), (''error'', Null),
                 (''duration'', Number 250), (''statusCode'', Null),
                 (''byteLength'', Number 42)])] \<and>
     get_prop (resolved_event demo_env (demo_request (Function 0)) (String ''http://ad'')
        (Object [(''xml'', String ''<VAST/>''),
                 (''details'', Object [(''url'', String ''elsewhere''),
                                       (''byteLength'', Number 42)])])) ''url'' = String ''elsewhere''"
proof -
  have h1: "\<not> nullish (demo_request (Function 0))"
    by (simp add: demo_defs eval_defs)
  have h2: "apply_filters demo_env (URLTemplateFilters (demo_fetcher [] 7))
              (get_prop (demo_request (Function 0)) ''url'') = Inr (String ''http://ad'')"
    by (simp add: demo_defs eval_defs)
  have h3: "\<not> nullish (fetchingOptions (demo_fetcher [] 7))"
    by (simp add: demo_defs eval_defs)
  have h4: "get_prop (demo_request (Function 0)) ''emitter'' = Function 0"
    by (simp add: demo_defs eval_defs)
  have h5: "call demo_env 0 [String ''VAST-resolving'',
              resolving_event (demo_fetcher [] 7) (demo_request (Function 0)) (String ''http://ad'')]
            = Inr Undefined"
    by (simp add: demo_defs)
  have h6: "transport_get demo_env (demo_fetcher [] 7) (String ''http://ad'') =
              Inr (Object [(''xml'', String ''<VAST/>''),
                           (''details'', Object [(''url'', String ''elsewhere''),
                                                 (''byteLength'', Number 42)])])"
    by (simp add: demo_defs eval_defs)
  have h7: "distinct (map fst (own_entries (opt_member
              (Object [(''xml'', String ''<VAST/>''),
                       (''details'', Object [(''url'', String ''elsewhere''),
                                             (''byteLength'', Number 42)])]) ''details'')))"
    by (simp add: eval_defs)
  show ?thesis
    using resolved_payload_details_take_precedence [OF h1 h2 h3 h4 h5 h6 h7, of "''url''"]
    by (simp add: demo_defs eval_defs)
qed

text \<open>Claim C1 as stated fails: the request is for \<^verbatim>\<open>http://ad\<close>, the transport's
  details carry \<^verbatim>\<open>url: "elsewhere"\<close>, and the payload of \<^verbatim>\<open>VAST-resolved\<close> has the
  details' value under \<^verbatim>\<open>url\<close>, not the fixed field's.\<close>

theorem resolved_payload_fixed_field_overridden:
  "fst (fetchVAST demo_env (demo_fetcher [] 7) (demo_request (Function 0))) =
     Inr \<lparr>actions =
            [Emit (String ''VAST-resolving'')
               (Object [(''url'', String ''http://ad''), (''previousUrl'', Null),
                        (''wrapperDepth'', Number 0), (''maxWrapperDepth'', Number 5),
                        (''timeout'', Number 120000), (''wrapperAd'', Null)]),
             Emit (String ''VAST-resolved'')
               (Object [(''url'', String ''elsewhere''), (''previousUrl'', Null),
                        (''wrapperDepth'', Number 0), (''error'', Null),
                        (''duration'', Number 250), (''statusCode'', Null),
                        (''byteLength'', Number 42)]),
             UpdateEstimatedBitrate (Number 42) (Number 250)],
          promise = Fulfilled (String ''<VAST/>''),
          executor_promise = Fulfilled Undefined\<rparr>"
  by (simp add: fetchVAST_def executor_body_def try_block_def emit_def updateEstimatedBitrate_def
      async_call_def new_Promise_def Let_def demo_defs eval_defs)

section \<open>C2: a filter that throws\<close>

text \<open>
  Claim C2, as amended.  When a filter of the chain throws on the URL that reaches it
  (the filters before it having returned), \<^verbatim>\<open>fetchVAST\<close> does not throw to its caller:
  it returns a promise.  No event is emitted and nothing is logged, the promise returned
  stays pending for ever, and the exception only rejects the promise of the
  \<^verbatim>\<open>async\<close> executor, which \<^verbatim>\<open>new Promise\<close> drops.
\<close>

theorem filter_exception_is_not_thrown_to_caller:
  assumes "\<not> nullish arg"
    and "URLTemplateFilters this = fs @ f # gs"
    and "apply_filters E fs (get_prop arg ''url'') = Inr u"
    and "invoke E f [u] = Inl e"
  shows "fst (fetchVAST E this arg) =
           Inr \<lparr>actions = [], promise = Pending, executor_promise = Rejected e\<rparr>"
proof -
  have "apply_filters E (URLTemplateFilters this) (get_prop arg ''url'') = Inl e"
    using assms(2) apply_filters_throwing_filter [OF assms(3,4)] by simp
  with assms(1) show ?thesis
    by (simp add: fetchVAST_def executor_body_def async_call_def new_Promise_def)
qed

text \<open>A run of the amended claim: the second of three filters throws.\<close>

theorem filter_exception_is_not_thrown_to_caller_witness:
  "fst (fetchVAST demo_env (demo_fetcher [Function 5, Function 6, Function 8] 10)
          (demo_request (Function 0))) =
     Inr \<lparr>actions = [], promise = Pending, executor_promise = Rejected (String ''bad filter'')\<rparr>"
proof -
  have h1: "\<not> nullish (demo_request (Function 0))"
    by (simp add: demo_defs eval_defs)
  have h2: "URLTemplateFilters (demo_fetcher [Function 5, Function 6, Function 8] 10) =
              [Function 5] @ Function 6 # [Function 8]"
    by (simp add: demo_defs)
  have h3: "apply_filters demo_env [Function 5] (get_prop (demo_request (Function 0)) ''url'') =
              Inr (String ''http://ad?a=1'')"
    by (simp add: demo_defs eval_defs)
  have h4: "invoke demo_env (Function 6) [String ''http://ad?a=1''] = Inl (String ''bad filter'')"
    by (simp add: demo_defs eval_defs)
  show ?thesis
    using filter_exception_is_not_thrown_to_caller [OF h1 h2 h3 h4] by simp
qed

text \<open>Claim C2 as stated fails: with a single filter that throws \<^verbatim>\<open>"bad filter"\<close>, the
  call of \<^verbatim>\<open>fetchVAST\<close> completes normally with a pending promise; the exception is not
  the completion of the call.\<close>

theorem throwing_filter_fetch_returns_pending_promise:
  "fst (fetchVAST demo_env (demo_fetcher [Function 6] 10) (demo_request (Function 0))) =
     Inr \<lparr>actions = [], promise = Pending, executor_promise = Rejected (String ''bad filter'')\<rparr>
   \<and> invoke demo_env (Function 6) [String ''http://ad''] = Inl (String ''bad filter'')
   \<and> fst (fetchVAST demo_env (demo_fetcher [Function 6] 10) (demo_request (Function 0))) \<noteq>
       Inl (String ''bad filter'')"
  by (simp add: fetchVAST_def executor_body_def async_call_def new_Promise_def
      demo_defs eval_defs)

section \<open>C3: exceptions of the emitter and of the transport\<close>

text \<open>
  Claim C3.  In a fetch attempt (an argument object, filters that return, a configured
  instance, an emitter that is a function) in which the emitter throws \<open>e\<close> on
  \<^verbatim>\<open>VAST-resolving\<close>, or the awaited \<^verbatim>\<open>get\<close> of the transport throws \<open>e\<close>, or the emitter
  throws \<open>e\<close> on \<^verbatim>\<open>VAST-resolved\<close>, the exception is caught: the call of \<^verbatim>\<open>fetchVAST\<close>
  returns, the body of the executor ends normally, \<open>e\<close> is passed to \<^verbatim>\<open>console.error\<close>
  and nothing else is, and the promise returned is neither fulfilled nor rejected.
\<close>

theorem caught_exception_is_logged_and_promise_stays_pending:
  assumes "\<not> nullish arg"
    and "apply_filters E (URLTemplateFilters this) (get_prop arg ''url'') = Inr url"
    and "\<not> nullish (fetchingOptions this)"
    and "get_prop arg ''emitter'' = Function em"
    and "call E em [String ''VAST-resolving'', resolving_event this arg url] = Inl e
         \<or> (call E em [String ''VAST-resolving'', resolving_event this arg url] = Inr r1 \<and>
            transport_get E this url = Inl e)
         \<or> (call E em [String ''VAST-resolving'', resolving_event this arg url] = Inr r1 \<and>
            transport_get E this url = Inr data \<and>
            call E em [String ''VAST-resolved'', resolved_event E arg url data] = Inl e)"
  shows "\<exists>out. fst (fetchVAST E this arg) = Inr out \<and>
           logged (actions out) = [e] \<and>
           promise out = Pending \<and>
           executor_promise out = Fulfilled Undefined"
proof -
  consider
      (resolving) "call E em [String ''VAST-resolving'', resolving_event this arg url] = Inl e"
    | (transport) "call E em [String ''VAST-resolving'', resolving_event this arg url] = Inr r1"
        "transport_get E this url = Inl e"
    | (resolved) "call E em [String ''VAST-resolving'', resolving_event this arg url] = Inr r1"
        "transport_get E this url = Inr data"
        "call E em [String ''VAST-resolved'', resolved_event E arg url data] = Inl e"
    using assms(5) by blast
  then show ?thesis
  proof cases
    case resolving
    show ?thesis
      by (simp add: fetchVAST_resolving_throws [OF assms(1-4) resolving])
  next
    case transport
    show ?thesis
      by (simp add: fetchVAST_get_throws [OF assms(1-4) transport])
  next
    case resolved
    show ?thesis
      by (simp add: fetchVAST_resolved_throws [OF assms(1-4) resolved])
  qed
qed

text \<open>Three runs, one for each place the exception can come from.\<close>

theorem caught_exception_is_logged_and_promise_stays_pending_witness:
  "(\<exists>out. fst (fetchVAST demo_env (demo_fetcher [Function 5] 10) (demo_request (Function 9))) = Inr out \<and>
      logged (actions out) = [String ''early''] \<and> promise out = Pending \<and>
      executor_promise out = Fulfilled Undefined)
   \<and> (\<exists>out. fst (fetchVAST demo_env (demo_fetcher [Function 5] 3) (demo_request (Function 0))) = Inr out \<and>
      logged (actions out) = [String ''down''] \<and> promise out = Pending \<and>
      executor_promise out = Fulfilled Undefined)
   \<and> (\<exists>out. fst (fetchVAST demo_env (demo_fetcher [Function 5] 10) (demo_request (Function 4))) = Inr out \<and>
      logged (actions out) = [String ''sink''] \<and> promise out = Pending \<and>
      executor_promise out = Fulfilled Undefined)"
proof -
  have a: "call demo_env 9 [String ''VAST-resolving'',
             resolving_event (demo_fetcher [Function 5] 10) (demo_request (Function 9))
               (String ''http://ad?a=1'')] = Inl (String ''early'')"
    by (simp add: demo_defs)
  have b1: "call demo_env 0 [String ''VAST-resolving'',
             resolving_event (demo_fetcher [Function 5] 3) (demo_request (Function 0))
               (String ''http://ad?a=1'')] = Inr Undefined"
    by (simp add: demo_defs)
  have b2: "transport_get demo_env (demo_fetcher [Function 5] 3) (String ''http://ad?a=1'') =
             Inl (String ''down'')"
    by (simp add: demo_transport) (simp add: demo_call_def)
  have c1: "call demo_env 4 [String ''VAST-resolving'',
             resolving_event (demo_fetcher [Function 5] 10) (demo_request (Function 4))
               (String ''http://ad?a=1'')] = Inr Undefined"
    by (simp add: demo_defs)
  have c2: "transport_get demo_env (demo_fetcher [Function 5] 10) (String ''http://ad?a=1'') =
             Inr (Object [(''xml'', String ''<VAST/>''),
                          (''details'', Object [(''byteLength'', Number 42)])])"
    by (simp add: demo_transport) (simp add: demo_call_def)
  have c3: "call demo_env 4 [String ''VAST-resolved'',
             resolved_event demo_env (demo_request (Function 4)) (String ''http://ad?a=1'')
               (Object [(''xml'', String ''<VAST/>''),
                        (''details'', Object [(''byteLength'', Number 42)])])] = Inl (String ''sink'')"
    by (simp add: demo_defs)
  have w1: "\<exists>out. fst (fetchVAST demo_env (demo_fetcher [Function 5] 10) (demo_request (Function 9))) = Inr out \<and>
      logged (actions out) = [String ''early''] \<and> promise out = Pending \<and>
      executor_promise out = Fulfilled Undefined"
    by (rule caught_exception_is_logged_and_promise_stays_pending
          [where url = "String ''http://ad?a=1''" and em = 9 and ?r1.0 = Undefined
             and data = Undefined])
       (simp_all add: demo_request_ok demo_filters_5 demo_fetcher_configured
          demo_request_emitter a)
  have w2: "\<exists>out. fst (fetchVAST demo_env (demo_fetcher [Function 5] 3) (demo_request (Function 0))) = Inr out \<and>
      logged (actions out) = [String ''down''] \<and> promise out = Pending \<and>
      executor_promise out = Fulfilled Undefined"
    by (rule caught_exception_is_logged_and_promise_stays_pending
          [where url = "String ''http://ad?a=1''" and em = 0 and ?r1.0 = Undefined
             and data = Undefined])
       (simp_all add: demo_request_ok demo_filters_5 demo_fetcher_configured
          demo_request_emitter b1 b2)
  have w3: "\<exists>out. fst (fetchVAST demo_env (demo_fetcher [Function 5] 10) (demo_request (Function 4))) = Inr out \<and>
      logged (actions out) = [String ''sink''] \<and> promise out = Pending \<and>
      executor_promise out = Fulfilled Undefined"
    by (rule caught_exception_is_logged_and_promise_stays_pending
          [where url = "String ''http://ad?a=1''" and em = 4 and ?r1.0 = Undefined
             and data = "Object [(''xml'', String ''<VAST/>''),
                                 (''details'', Object [(''byteLength'', Number 42)])]"])
       (simp_all add: demo_request_ok demo_filters_5 demo_fetcher_configured
          demo_request_emitter c1 c2 c3)
  from w1 w2 w3 show ?thesis
    by blast
qed

section \<open>C4: how the promise settles\<close>

text \<open>
  Claim C4.  In a fetch attempt in which the transport returns a result \<open>data\<close> (a value
  with fields, so neither \<^verbatim>\<open>undefined\<close> nor \<^verbatim>\<open>null\<close>) and no call of the emitter throws:
  if \<^verbatim>\<open>data.error\<close> is set (truthy, as the \<^verbatim>\<open>if\<close> of line 111 tests it), the promise is
  rejected with the value of \<^verbatim>\<open>data.error\<close> itself; otherwise it is fulfilled with
  \<^verbatim>\<open>data.xml\<close>, the document text.
\<close>

theorem promise_settles_by_transport_error:
  assumes "\<not> nullish arg"
    and "apply_filters E (URLTemplateFilters this) (get_prop arg ''url'') = Inr url"
    and "\<not> nullish (fetchingOptions this)"
    and "get_prop arg ''emitter'' = Function em"
    and "call E em [String ''VAST-resolving'', resolving_event this arg url] = Inr r1"
    and "transport_get E this url = Inr data"
    and "call E em [String ''VAST-resolved'', resolved_event E arg url data] = Inr r2"
    and "\<not> nullish data"
  shows "\<exists>out. fst (fetchVAST E this arg) = Inr out \<and>
           promise out =
             (if truthy (get_prop data ''error'') then Rejected (get_prop data ''error'')
              else Fulfilled (get_prop data ''xml''))"
  using assms(8) by (simp add: fetchVAST_returned [OF assms(1-7)])

text \<open>Two runs: a transport that reports \<^verbatim>\<open>"boom"\<close>, and one that returns a document.\<close>

theorem promise_settles_by_transport_error_witness:
  "(\<exists>out. fst (fetchVAST demo_env (demo_fetcher [Function 5] 2) (demo_request (Function 0))) = Inr out \<and>
      promise out = Rejected (String ''boom''))
   \<and> (\<exists>out. fst (fetchVAST demo_env (demo_fetcher [Function 5] 10) (demo_request (Function 0))) = Inr out \<and>
      promise out = Fulfilled (String ''<VAST/>''))"
proof -
  note w1 = promise_settles_by_transport_error
    [OF demo_request_ok demo_filters_5 demo_fetcher_configured demo_request_emitter
        demo_emitter_0 demo_transport_2 demo_emitter_0 not_nullish_Object]
  note w2 = promise_settles_by_transport_error
    [OF demo_request_ok demo_filters_5 demo_fetcher_configured demo_request_emitter
        demo_emitter_0 demo_transport_10 demo_emitter_0 not_nullish_Object]
  from w1 w2 show ?thesis
    by (simp add: get_prop_def)
qed

section \<open>C5: the bitrate update\<close>

text \<open>
  Claim C5, as amended.  In a fetch attempt in which the awaited \<^verbatim>\<open>get\<close> of the transport
  returns \<open>data\<close> and the emitter's call for \<^verbatim>\<open>VAST-resolved\<close> returns,
  \<^verbatim>\<open>updateEstimatedBitrate\<close> is called exactly once, with \<^verbatim>\<open>data?.details?.byteLength\<close>
  (which may be \<^verbatim>\<open>undefined\<close>) and the measured duration, whether \<open>data\<close> reports an
  error or not.
\<close>

theorem bitrate_updated_once_after_resolved_event:
  assumes "\<not> nullish arg"
    and "apply_filters E (URLTemplateFilters this) (get_prop arg ''url'') = Inr url"
    and "\<not> nullish (fetchingOptions this)"
    and "get_prop arg ''emitter'' = Function em"
    and "call E em [String ''VAST-resolving'', resolving_event this arg url] = Inr r1"
    and "transport_get E this url = Inr data"
    and "call E em [String ''VAST-resolved'', resolved_event E arg url data] = Inr r2"
  shows "\<exists>out. fst (fetchVAST E this arg) = Inr out \<and>
           bitrate_updates (actions out) =
             [(opt_member (opt_member data ''details'') ''byteLength'', request_duration E)]"
  by (simp add: fetchVAST_returned [OF assms])

text \<open>Two runs: on a reported error the byte length is \<^verbatim>\<open>undefined\<close>, on a success it is
  the one of the details.\<close>

theorem bitrate_updated_once_after_resolved_event_witness:
  "(\<exists>out. fst (fetchVAST demo_env (demo_fetcher [Function 5] 2) (demo_request (Function 0))) = Inr out \<and>
      bitrate_updates (actions out) = [(Undefined, Number 250)])
   \<and> (\<exists>out. fst (fetchVAST demo_env (demo_fetcher [Function 5] 10) (demo_request (Function 0))) = Inr out \<and>
      bitrate_updates (actions out) = [(Number 42, Number 250)])"
proof -
  note w1 = bitrate_updated_once_after_resolved_event
    [OF demo_request_ok demo_filters_5 demo_fetcher_configured demo_request_emitter
        demo_emitter_0 demo_transport_2 demo_emitter_0]
  note w2 = bitrate_updated_once_after_resolved_event
    [OF demo_request_ok demo_filters_5 demo_fetcher_configured demo_request_emitter
        demo_emitter_0 demo_transport_10 demo_emitter_0]
  from w1 w2 show ?thesis
    by (simp add: opt_member_def nullish_def get_prop_def request_duration_def demo_env_def)
qed

text \<open>Claim C5 as stated fails: the transport returns a document, the emitter throws on
  \<^verbatim>\<open>VAST-resolved\<close>, and the exception leaves the \<^verbatim>\<open>try\<close> before line 109 is reached:
  \<^verbatim>\<open>updateEstimatedBitrate\<close> is not called.\<close>

theorem bitrate_not_updated_when_resolved_emitter_throws:
  "fst (fetchVAST demo_env (demo_fetcher [] 10) (demo_request (Function 4))) =
     Inr \<lparr>actions =
            [Emit (String ''VAST-resolving'')
               (Object [(''url'', String ''http://ad''), (''previousUrl'', Null),
                        (''wrapperDepth'', Number 0), (''maxWrapperDepth'', Number 5),
                        (''timeout'', Number 120000), (''wrapperAd'', Null)]),
             Emit (String ''VAST-resolved'')
               (Object [(''url'', String ''http://ad''), (''previousUrl'', Null),
                        (''wrapperDepth'', Number 0), (''error'', Null),
                        (''duration'', Number 250), (''statusCode'', Null),
                        (''byteLength'', Number 42)]),
             ConsoleError (String ''sink'')],
          promise = Pending,
          executor_promise = Fulfilled Undefined\<rparr>
   \<and> transport_get demo_env (demo_fetcher [] 10) (String ''http://ad'') =
       Inr (Object [(''xml'', String ''<VAST/>''),
                    (''details'', Object [(''byteLength'', Number 42)])])"
  by (simp add: fetchVAST_def executor_body_def try_block_def emit_def updateEstimatedBitrate_def
      async_call_def new_Promise_def Let_def demo_defs eval_defs)

section \<open>C6: the fetching options\<close>

text \<open>
  Claim C6.  \<^verbatim>\<open>setOptions()\<close> with no options, or with options whose \<^verbatim>\<open>timeout\<close> and
  \<^verbatim>\<open>withCredentials\<close> are falsy, sets fetching options whose \<^verbatim>\<open>timeout\<close> is
  \<^verbatim>\<open>DEFAULT_TIMEOUT\<close> and whose \<^verbatim>\<open>withCredentials\<close> is the boolean \<^verbatim>\<open>false\<close>; with any
  truthy \<^verbatim>\<open>withCredentials\<close>, boolean or not, it sets \<^verbatim>\<open>withCredentials\<close> to the boolean
  \<^verbatim>\<open>true\<close>.  (The spec calls \<^verbatim>\<open>setOptions\<close> configure, \<^verbatim>\<open>timeout\<close> timeoutMs and
  \<^verbatim>\<open>withCredentials\<close> sendCredentials.)
\<close>

theorem setOptions_default_timeout_and_boolean_credentials:
  "fst (setOptions E Undefined this) = None
   \<and> fetchingOptions (snd (setOptions E Undefined this)) =
       Object [(''timeout'', DEFAULT_TIMEOUT E), (''withCredentials'', Boolean False)]
   \<and> (options \<noteq> Null \<and> \<not> truthy (get_prop options ''timeout'') \<and>
      \<not> truthy (get_prop options ''withCredentials'') \<longrightarrow>
        fetchingOptions (snd (setOptions E options this)) =
          Object [(''timeout'', DEFAULT_TIMEOUT E), (''withCredentials'', Boolean False)])
   \<and> (options \<noteq> Null \<and> truthy (get_prop options ''withCredentials'') \<longrightarrow>
        get_prop (fetchingOptions (snd (setOptions E options this))) ''withCredentials'' =
          Boolean True)"
  by (simp add: setOptions_def nullish_def js_or_def get_prop_def Let_def)

text \<open>Three calls: no options, falsy fields, and the string \<^verbatim>\<open>"yes"\<close> as credentials.\<close>

theorem setOptions_default_timeout_and_boolean_credentials_witness:
  "fetchingOptions (snd (setOptions demo_env Undefined constructor)) =
       Object [(''timeout'', Number 120000), (''withCredentials'', Boolean False)]
   \<and> fetchingOptions (snd (setOptions demo_env
         (Object [(''timeout'', Number 0), (''withCredentials'', String [])]) constructor)) =
       Object [(''timeout'', Number 120000), (''withCredentials'', Boolean False)]
   \<and> get_prop (fetchingOptions (snd (setOptions demo_env
         (Object [(''withCredentials'', String ''yes'')]) constructor))) ''withCredentials'' =
       Boolean True"
  using
    setOptions_default_timeout_and_boolean_credentials
      [of demo_env constructor "Object [(''timeout'', Number 0), (''withCredentials'', String [])]"]
    setOptions_default_timeout_and_boolean_credentials
      [of demo_env constructor "Object [(''withCredentials'', String ''yes'')]"]
  by (simp add: get_prop_def demo_env_def)

section \<open>C7: the filter chain\<close>

text \<open>
  Claim C7.  Register \<open>N\<close> filters, in order, on an instance whose chain is empty, the
  \<open>i\<close>-th filter returning \<open>gs ! i\<close> of the URL that reaches it when the chain is run on
  \<open>url\<close>.  Then \<^verbatim>\<open>fetchVAST\<close>, called for \<open>url\<close>, first calls the emitter with
  \<^verbatim>\<open>VAST-resolving\<close> and a payload whose \<^verbatim>\<open>url\<close> is \<open>url\<close> passed through \<open>gs\<close> from the
  first to the last, each function receiving the result of the one before; it leaves
  the instance, and so the chain, as it was; and after \<^verbatim>\<open>removeLastURLTemplateFilter\<close>
  it emits the URL passed through the first \<open>N - 1\<close> functions only.  The last two
  conjuncts say the same of lines 83 to 85 taken alone.
\<close>

theorem filters_compose_in_registration_order:
  assumes "URLTemplateFilters this0 = []"
    and "this = fold addURLTemplateFilter (map Function ns) this0"
    and "length ns = length gs"
    and "\<forall>i<length ns. call E (ns ! i) [fold (\<lambda>g u. g u) (take i gs) url] =
           Inr ((gs ! i) (fold (\<lambda>g u. g u) (take i gs) url))"
    and "\<not> nullish arg"
    and "get_prop arg ''url'' = url"
    and "\<not> nullish (fetchingOptions this)"
    and "get_prop arg ''emitter'' = Function em"
  shows "(\<exists>out rest. fst (fetchVAST E this arg) = Inr out \<and>
            actions out =
              Emit (String ''VAST-resolving'')
                (resolving_event this arg (fold (\<lambda>g u. g u) gs url)) # rest)
       \<and> get_prop (resolving_event this arg (fold (\<lambda>g u. g u) gs url)) ''url'' =
           fold (\<lambda>g u. g u) gs url
       \<and> snd (fetchVAST E this arg) = this
       \<and> (\<exists>out rest. fst (fetchVAST E (removeLastURLTemplateFilter this) arg) = Inr out \<and>
            actions out =
              Emit (String ''VAST-resolving'')
                (resolving_event this arg (fold (\<lambda>g u. g u) (butlast gs) url)) # rest)
       \<and> get_prop (resolving_event this arg (fold (\<lambda>g u. g u) (butlast gs) url)) ''url'' =
           fold (\<lambda>g u. g u) (butlast gs) url
       \<and> apply_filters E (URLTemplateFilters this) url = Inr (fold (\<lambda>g u. g u) gs url)
       \<and> apply_filters E (URLTemplateFilters (removeLastURLTemplateFilter this)) url =
           Inr (fold (\<lambda>g u. g u) (butlast gs) url)"
proof -
  have chain: "URLTemplateFilters this = map Function ns"
    using assms(1,2) by (simp add: registered_filters)
  have all: "apply_filters E (URLTemplateFilters this) url = Inr (fold (\<lambda>g u. g u) gs url)"
    unfolding chain by (rule apply_filters_along_path [OF assms(3,4)])
  have len: "length (butlast ns) = length (butlast gs)"
    using assms(3) by simp
  have but: "apply_filters E (URLTemplateFilters (removeLastURLTemplateFilter this)) url =
           Inr (fold (\<lambda>g u. g u) (butlast gs) url)"
    using apply_filters_along_path [OF len path_butlast [OF assms(3,4)]]
    by (simp add: removeLastURLTemplateFilter_def chain map_butlast)
  have conf: "\<not> nullish (fetchingOptions (removeLastURLTemplateFilter this))"
    using assms(7) by (simp add: removeLastURLTemplateFilter_def)
  have e1: "\<exists>out rest. fst (fetchVAST E this arg) = Inr out \<and>
            actions out =
              Emit (String ''VAST-resolving'')
                (resolving_event this arg (fold (\<lambda>g u. g u) gs url)) # rest"
    using fetchVAST_first_event [OF assms(5) _ assms(7,8)] all assms(6) by simp
  have e2: "\<exists>out rest. fst (fetchVAST E (removeLastURLTemplateFilter this) arg) = Inr out \<and>
            actions out =
              Emit (String ''VAST-resolving'')
                (resolving_event this arg (fold (\<lambda>g u. g u) (butlast gs) url)) # rest"
    using fetchVAST_first_event [OF assms(5) _ conf assms(8)] but assms(6)
    by (simp add: resolving_event_removeLast)
  have frame: "snd (fetchVAST E this arg) = this"
    by (simp add: fetchVAST_def)
  from e1 e2 frame all but show ?thesis
    by (simp add: resolving_event_url)
qed

text \<open>Two filters that append \<^verbatim>\<open>?a=1\<close> and \<^verbatim>\<open>&c=3\<close>; the second throws on anything but
  a string, which it never receives here.\<close>

theorem filters_compose_in_registration_order_witness:
  "(\<exists>out rest.
      fst (fetchVAST demo_env
             (fold addURLTemplateFilter [Function 5, Function 11] (demo_fetcher [] 10))
             (demo_request (Function 0))) = Inr out \<and>
      actions out =
        Emit (String ''VAST-resolving'')
          (Object [(''url'', String ''http://ad?a=1&c=3''), (''previousUrl'', Null),
                   (''wrapperDepth'', Number 0), (''maxWrapperDepth'', Number 5),
                   (''timeout'', Number 120000), (''wrapperAd'', Null)]) # rest)
   \<and> snd (fetchVAST demo_env
             (fold addURLTemplateFilter [Function 5, Function 11] (demo_fetcher [] 10))
             (demo_request (Function 0))) =
       fold addURLTemplateFilter [Function 5, Function 11] (demo_fetcher [] 10)
   \<and> (\<exists>out rest.
      fst (fetchVAST demo_env
             (removeLastURLTemplateFilter
                (fold addURLTemplateFilter [Function 5, Function 11] (demo_fetcher [] 10)))
             (demo_request (Function 0))) = Inr out \<and>
      actions out =
        Emit (String ''VAST-resolving'')
          (Object [(''url'', String ''http://ad?a=1''), (''previousUrl'', Null),
                   (''wrapperDepth'', Number 0), (''maxWrapperDepth'', Number 5),
                   (''timeout'', Number 120000), (''wrapperAd'', Null)]) # rest)
   \<and> call demo_env 11 [Undefined] = Inl TypeError"
proof -
  have h1: "URLTemplateFilters (demo_fetcher [] 10) = []"
    by (simp add: demo_fetcher_def)
  have h2: "fold addURLTemplateFilter [Function 5, Function 11] (demo_fetcher [] 10) =
              fold addURLTemplateFilter (map Function [5, 11]) (demo_fetcher [] 10)"
    by simp
  have h3: "length [5, 11 :: nat] = length [append_query ''?a=1'', append_query ''&c=3'']"
    by simp
  have h4: "\<forall>i<length [5, 11 :: nat].
              call demo_env ([5, 11] ! i)
                [fold (\<lambda>g u. g u) (take i [append_query ''?a=1'', append_query ''&c=3''])
                   (String ''http://ad'')] =
              Inr (([append_query ''?a=1'', append_query ''&c=3''] ! i)
                (fold (\<lambda>g u. g u) (take i [append_query ''?a=1'', append_query ''&c=3''])
                   (String ''http://ad'')))"
    by (simp add: less_Suc_eq demo_filter_5 demo_filter_11) 
       (auto simp add: append_query_def demo_filter_11 demo_filter_5)
  have h6: "get_prop (demo_request (Function 0)) ''url'' = String ''http://ad''"
    by (simp add: demo_request_def get_prop_def)
  have h7: "\<not> nullish (fetchingOptions
              (fold addURLTemplateFilter [Function 5, Function 11] (demo_fetcher [] 10)))"
    by (simp add: addURLTemplateFilter_def demo_fetcher_def nullish_def)
  show ?thesis
    using filters_compose_in_registration_order
      [OF h1 h2 h3 h4 demo_request_ok h6 h7 demo_request_emitter]
    by (simp add: append_query_def demo_filter_11_throws resolving_event_def
        resolving_payload_def default_to_def get_prop_def demo_request_def
        addURLTemplateFilter_def demo_fetcher_def)
qed

section \<open>C8: the pairing of the two events\<close>

text \<open>
  Claim C8.  In a fetch attempt whose first call of the emitter returns: if the awaited
  \<^verbatim>\<open>get\<close> of the transport returns and the emitter's second call returns, the emitter
  has been called exactly twice, with \<^verbatim>\<open>VAST-resolving\<close> and then with
  \<^verbatim>\<open>VAST-resolved\<close>; if the awaited \<^verbatim>\<open>get\<close> throws, the emitter has been called with
  \<^verbatim>\<open>VAST-resolving\<close> only, and the promise returned is neither fulfilled nor rejected.
\<close>

theorem resolving_and_resolved_events_are_paired:
  assumes "\<not> nullish arg"
    and "apply_filters E (URLTemplateFilters this) (get_prop arg ''url'') = Inr url"
    and "\<not> nullish (fetchingOptions this)"
    and "get_prop arg ''emitter'' = Function em"
    and "call E em [String ''VAST-resolving'', resolving_event this arg url] = Inr r1"
  shows "(transport_get E this url = Inr data \<and>
          call E em [String ''VAST-resolved'', resolved_event E arg url data] = Inr r2 \<longrightarrow>
            (\<exists>out. fst (fetchVAST E this arg) = Inr out \<and>
               events (actions out) =
                 [(String ''VAST-resolving'', resolving_event this arg url),
                  (String ''VAST-resolved'', resolved_event E arg url data)]))
       \<and> (transport_get E this url = Inl e \<longrightarrow>
            (\<exists>out. fst (fetchVAST E this arg) = Inr out \<and>
               events (actions out) = [(String ''VAST-resolving'', resolving_event this arg url)] \<and>
               promise out = Pending))"
proof (intro conjI impI)
  assume "transport_get E this url = Inr data \<and>
          call E em [String ''VAST-resolved'', resolved_event E arg url data] = Inr r2"
  then have t: "transport_get E this url = Inr data" by simp
  show "\<exists>out. fst (fetchVAST E this arg) = Inr out \<and>
               events (actions out) =
                 [(String ''VAST-resolving'', resolving_event this arg url),
                  (String ''VAST-resolved'', resolved_event E arg url data)]"
    by (rule fetchVAST_both_events [OF assms t])
next
  assume t: "transport_get E this url = Inl e"
  show "\<exists>out. fst (fetchVAST E this arg) = Inr out \<and>
               events (actions out) = [(String ''VAST-resolving'', resolving_event this arg url)] \<and>
               promise out = Pending"
    by (simp add: fetchVAST_get_throws [OF assms t])
qed

text \<open>Two runs: a transport that returns a document, and one that throws.\<close>

theorem resolving_and_resolved_events_are_paired_witness:
  "(\<exists>out. fst (fetchVAST demo_env (demo_fetcher [Function 5] 10) (demo_request (Function 0))) = Inr out \<and>
      map fst (events (actions out)) = [String ''VAST-resolving'', String ''VAST-resolved''])
   \<and> (\<exists>out. fst (fetchVAST demo_env (demo_fetcher [Function 5] 3) (demo_request (Function 0))) = Inr out \<and>
      map fst (events (actions out)) = [String ''VAST-resolving''] \<and> promise out = Pending)"
proof -
  note w1 = resolving_and_resolved_events_are_paired
    [where arg = "demo_request (Function 0)" and E = demo_env
       and this = "demo_fetcher [Function 5] 10" and url = "String ''http://ad?a=1''" and em = 0
       and ?r1.0 = Undefined and ?r2.0 = Undefined and e = Undefined
       and data = "Object [(''xml'', String ''<VAST/>''),
                           (''details'', Object [(''byteLength'', Number 42)])]",
     OF demo_request_ok demo_filters_5 demo_fetcher_configured demo_request_emitter demo_emitter_0]
  note w2 = resolving_and_resolved_events_are_paired
    [where arg = "demo_request (Function 0)" and E = demo_env
       and this = "demo_fetcher [Function 5] 3" and url = "String ''http://ad?a=1''" and em = 0
       and ?r1.0 = Undefined and ?r2.0 = Undefined and e = "String ''down''"
       and data = Undefined,
     OF demo_request_ok demo_filters_5 demo_fetcher_configured demo_request_emitter demo_emitter_0]
  from w1 have "\<exists>out. fst (fetchVAST demo_env (demo_fetcher [Function 5] 10) (demo_request (Function 0))) = Inr out \<and>
      map fst (events (actions out)) = [String ''VAST-resolving'', String ''VAST-resolved'']"
    by (auto simp add: demo_transport_10 demo_emitter_0)
  moreover from w2 have "\<exists>out. fst (fetchVAST demo_env (demo_fetcher [Function 5] 3) (demo_request (Function 0))) = Inr out \<and>
      map fst (events (actions out)) = [String ''VAST-resolving''] \<and> promise out = Pending"
    by (auto simp add: demo_transport_3)
  ultimately show ?thesis
    by blast
qed

section \<open>C9: the choice of the transport\<close>

text \<open>
  Claim C9.  \<^verbatim>\<open>setOptions\<close> takes as transport \<^verbatim>\<open>options.urlHandler\<close> if it is truthy,
  otherwise \<^verbatim>\<open>options.urlhandler\<close> (all lower case) if it is truthy, otherwise the
  \<^verbatim>\<open>urlHandler\<close> the module imports.  (On \<^verbatim>\<open>null\<close> the call throws; no options at all
  read as an empty object.)
\<close>

theorem setOptions_transport_priority:
  assumes "options \<noteq> Null"
  shows "urlHandler (snd (setOptions E options this)) =
           (if truthy (get_prop options ''urlHandler'') then get_prop options ''urlHandler''
            else if truthy (get_prop options ''urlhandler'') then get_prop options ''urlhandler''
            else xhr_urlHandler E)"
  using assms by (simp add: setOptions_def nullish_def js_or_def get_prop_def Let_def)

text \<open>Four calls: both keys, the lower case key only, neither key, no options.\<close>

theorem setOptions_transport_priority_witness:
  "urlHandler (snd (setOptions demo_env
      (Object [(''urlhandler'', Object [(''get'', Function 2)]),
               (''urlHandler'', Object [(''get'', Function 7)])]) constructor)) =
     Object [(''get'', Function 7)]
   \<and> urlHandler (snd (setOptions demo_env
      (Object [(''urlhandler'', Object [(''get'', Function 2)]),
               (''urlHandler'', Null)]) constructor)) =
     Object [(''get'', Function 2)]
   \<and> urlHandler (snd (setOptions demo_env (Object [(''timeout'', Number 5)]) constructor)) =
     Object [(''get'', Function 10)]
   \<and> urlHandler (snd (setOptions demo_env Undefined constructor)) =
     Object [(''get'', Function 10)]"
proof -
  have n: "Object ps \<noteq> Null" "Undefined \<noteq> Null" for ps
    by simp_all
  show ?thesis
    using
      setOptions_transport_priority [where E = demo_env and this = constructor
        and options = "Object [(''urlhandler'', Object [(''get'', Function 2)]),
                               (''urlHandler'', Object [(''get'', Function 7)])]", OF n(1)]
      setOptions_transport_priority [where E = demo_env and this = constructor
        and options = "Object [(''urlhandler'', Object [(''get'', Function 2)]),
                               (''urlHandler'', Null)]", OF n(1)]
      setOptions_transport_priority [where E = demo_env and this = constructor
        and options = "Object [(''timeout'', Number 5)]", OF n(1)]
      setOptions_transport_priority [where E = demo_env and this = constructor
        and options = Undefined, OF n(2)]
    by (simp add: get_prop_def demo_env_def)
qed

section \<open>C10: setOptions and the filter chain\<close>

text \<open>
  Claim C10.  Whatever the instance and the options, \<^verbatim>\<open>setOptions\<close> leaves
  \<^verbatim>\<open>URLTemplateFilters\<close> as it was (the same filters in the same order, the same
  count); and when it does not throw, the transport and the fetching options it sets
  depend on the options only, not on what the instance held before.
\<close>

theorem setOptions_keeps_filter_chain:
  "URLTemplateFilters (snd (setOptions E options this)) = URLTemplateFilters this
   \<and> countURLTemplateFilters (snd (setOptions E options this)) = countURLTemplateFilters this
   \<and> (options \<noteq> Null \<longrightarrow>
        urlHandler (snd (setOptions E options this)) =
          urlHandler (snd (setOptions E options other)) \<and>
        fetchingOptions (snd (setOptions E options this)) =
          fetchingOptions (snd (setOptions E options other)))"
  by (simp add: setOptions_def countURLTemplateFilters_def nullish_def Let_def)

text \<open>A call on an instance with two filters and an earlier configuration.\<close>

theorem setOptions_keeps_filter_chain_witness:
  "setOptions demo_env (Object [(''urlHandler'', Object [(''get'', Function 2)]),
                                (''timeout'', Number 3000)])
     (demo_fetcher [Function 5, Function 8] 10) =
     (None,
      \<lparr>URLTemplateFilters = [Function 5, Function 8],
       urlHandler = Object [(''get'', Function 2)],
       fetchingOptions = Object [(''timeout'', Number 3000), (''withCredentials'', Boolean False)]\<rparr>)
   \<and> URLTemplateFilters (snd (setOptions demo_env
         (Object [(''urlHandler'', Object [(''get'', Function 2)]), (''timeout'', Number 3000)])
         (demo_fetcher [Function 5, Function 8] 10))) =
       URLTemplateFilters (demo_fetcher [Function 5, Function 8] 10)
   \<and> urlHandler (snd (setOptions demo_env
         (Object [(''urlHandler'', Object [(''get'', Function 2)]), (''timeout'', Number 3000)])
         (demo_fetcher [Function 5, Function 8] 10))) =
       urlHandler (snd (setOptions demo_env
         (Object [(''urlHandler'', Object [(''get'', Function 2)]), (''timeout'', Number 3000)])
         constructor))"
  using setOptions_keeps_filter_chain
    [of demo_env "Object [(''urlHandler'', Object [(''get'', Function 2)]), (''timeout'', Number 3000)]"
        "demo_fetcher [Function 5, Function 8] 10" constructor]
  by (simp add: setOptions_def nullish_def js_or_def get_prop_def Let_def demo_fetcher_def)

end
